theory Spec2Isabelle
  imports Complex_Main "HOL-Library.Word"
begin

section \<open>The Shopify publishing route (\<^verbatim>\<open>src/unnamed/part_001\<close>)\<close>

text \<open>
  The module is the Express router mounted under \<^verbatim>\<open>/shopify\<close>. It holds three async
  functions (\<^verbatim>\<open>processImageForShopify\<close>, \<^verbatim>\<open>uploadImageToShopify\<close>,
  \<^verbatim>\<open>createShopifyProduct\<close>) and the handler of \<^verbatim>\<open>POST /upload-product\<close>.

  Everything outside the module (the network, the image library, the clock, the JSON
  serialiser) is a field of the record \<open>env\<close>: an arbitrary function, so a theorem that
  quantifies over \<open>env\<close> holds whatever the outside world answers. Every outbound HTTP
  request is written to a list, in the order the code issues it.
\<close>

subsection \<open>JavaScript strings\<close>

text \<open>
  A JavaScript string is a sequence of UTF-16 code units; one \<^typ>\<open>char\<close> stands for one
  code unit, which is exact for every literal of the module (all ASCII).
\<close>

definition startsWith :: "string \<Rightarrow> string \<Rightarrow> bool" where
  "startsWith s p = (take (length p) s = p)"

text \<open>
  \<^verbatim>\<open>s.replace(pat, rep)\<close> with a string pattern: the first occurrence of \<open>pat\<close>, wherever
  it stands, is replaced; a string without an occurrence is returned as it is. (The
  replacement \<^verbatim>\<open>'https://'\<close> holds no \<^verbatim>\<open>$\<close>, so it is inserted literally.)
\<close>

fun js_replace :: "string \<Rightarrow> string \<Rightarrow> string \<Rightarrow> string" where
  "js_replace [] pat rep = (if pat = [] then rep else [])"
| "js_replace (c # cs) pat rep =
     (if startsWith (c # cs) pat then rep @ drop (length pat) (c # cs)
      else c # js_replace cs pat rep)"

text \<open>\<^verbatim>\<open>s.replace(/^https?:\/\//, '')\<close>: one scheme prefix, at the start only, case-sensitive.\<close>

definition strip_scheme :: "string \<Rightarrow> string" where
  "strip_scheme s =
     (if startsWith s ''https://'' then drop 8 s
      else if startsWith s ''http://'' then drop 7 s
      else s)"

text \<open>\<^verbatim>\<open>s.substring(0, n)\<close>.\<close>

definition substring0 :: "string \<Rightarrow> nat \<Rightarrow> string" where
  "substring0 s n = take n s"

text \<open>\<^verbatim>\<open>s.split(',')\<close> and the read \<^verbatim>\<open>[1]\<close> of its result (\<open>None\<close> is \<^verbatim>\<open>undefined\<close>).\<close>

fun split_comma :: "string \<Rightarrow> string list" where
  "split_comma [] = [[]]"
| "split_comma (c # cs) =
     (if c = CHR '','' then [] # split_comma cs
      else (case split_comma cs of [] \<Rightarrow> [[c]] | w # ws \<Rightarrow> (c # w) # ws))"

definition second :: "'a list \<Rightarrow> 'a option" where
  "second xs = (case xs of _ # y # _ \<Rightarrow> Some y | _ \<Rightarrow> None)"

text \<open>
  \<^verbatim>\<open>filename.replace(/\.[^/.]+$/, ".jpg")\<close>: the match is the last dot together with a
  non-empty rest that holds no slash.
\<close>

definition replace_extension :: "string \<Rightarrow> string" where
  "replace_extension f =
     (let ext = rev (takeWhile (\<lambda>c. c \<noteq> CHR ''.'') (rev f)) in
      if CHR ''.'' \<in> set f \<and> ext \<noteq> [] \<and> CHR ''/'' \<notin> set ext
      then take (length f - length ext - 1) f @ ''.jpg''
      else f)"

text \<open>A non-negative integer in a template literal.\<close>

fun dec :: "nat \<Rightarrow> string" where
  "dec n = (if n < 10 then [char_of (48 + n)] else dec (n div 10) @ [char_of (48 + n mod 10)])"

declare dec.simps [simp del]

subsection \<open>JavaScript values\<close>

text \<open>
  Request bodies and upstream responses are parsed JSON. A property that is absent reads
  as \<^verbatim>\<open>undefined\<close>, which is \<open>None\<close> of \<^typ>\<open>'a option\<close>.
\<close>

datatype json =
  JNull | JBool bool | JNum real | JStr string | JArr "json list" | JObj "(string \<times> json) list"

fun truthy :: "json \<Rightarrow> bool" where
  "truthy JNull = False"
| "truthy (JBool b) = b"
| "truthy (JNum r) = (r \<noteq> 0)"
| "truthy (JStr s) = (s \<noteq> [])"
| "truthy (JArr _) = True"
| "truthy (JObj _) = True"

text \<open>\<^verbatim>\<open>v.name\<close> on a value that is neither \<^verbatim>\<open>null\<close> nor \<^verbatim>\<open>undefined\<close>.\<close>

fun js_get :: "json \<Rightarrow> string \<Rightarrow> json option" where
  "js_get (JObj kvs) name = map_of kvs name"
| "js_get _ name = None"

text \<open>\<^verbatim>\<open>v || d\<close> for an optional field of the request.\<close>

definition or_default :: "json option \<Rightarrow> json \<Rightarrow> json" where
  "or_default v d = (case v of None \<Rightarrow> d | Some j \<Rightarrow> if truthy j then j else d)"

fun as_string :: "json option \<Rightarrow> string option" where
  "as_string (Some (JStr s)) = Some s"
| "as_string _ = None"

type_synonym buffer = "8 word list"

subsection \<open>Errors and HTTP\<close>

text \<open>
  Every error that leaves one of the module's functions is \<^verbatim>\<open>new Error(message)\<close>.
  Inside a \<^verbatim>\<open>try\<close> block the thrown value may be an axios error, which also carries the
  response (\<^verbatim>\<open>error.response.status\<close>, \<^verbatim>\<open>error.response.data\<close>).
\<close>

datatype js_error = Error string

fun error_message :: "js_error \<Rightarrow> string" where
  "error_message (Error m) = m"

record 'd thrown =
  message :: string
  response :: "(nat \<times> 'd) option"

definition new_Error :: "string \<Rightarrow> 'd thrown" where
  "new_Error m = \<lparr>message = m, response = None\<rparr>"

datatype 'd http_outcome = Response nat 'd | NoResponse string

text \<open>
  axios resolves on a status in 200..299 (its default \<^verbatim>\<open>validateStatus\<close>) and rejects
  otherwise; without any response (timeout, connection failure) it rejects with an error
  that has no \<^verbatim>\<open>response\<close>.
\<close>

definition axios :: "'d http_outcome \<Rightarrow> 'd thrown + 'd" where
  "axios out =
     (case out of
        Response st d \<Rightarrow>
          if 200 \<le> st \<and> st < 300 then Inr d
          else Inl \<lparr>message = ''Request failed with status code '' @ dec st,
                    response = Some (st, d)\<rparr>
      | NoResponse m \<Rightarrow> Inl \<lparr>message = m, response = None\<rparr>)"

definition response_status :: "'d thrown \<Rightarrow> nat option" where
  "response_status e = map_option fst (response e)"

subsection \<open>Data of the module\<close>

record processedImage =
  buffer :: buffer
  filename :: string
  mimetype :: string

record uploadResult =
  success :: bool
  uploadId :: "json option"
  publicUrl :: string
  uploaded_filename :: "json option"

record productData =
  pd_title :: string
  pd_description :: string
  pd_price :: json
  pd_vendor :: "json option"
  pd_productType :: "json option"
  pd_status :: "json option"
  pd_inventory :: "json option"
  pd_tags :: "json option"

record variant =
  price :: string
  inventory_quantity :: json
  inventory_management :: string
  inventory_policy :: string

record image_entry =
  src :: string

record product_payload =
  title :: string
  body_html :: string
  vendor :: json
  product_type :: json
  status :: json
  variants :: "variant list"
  images :: "image_entry list"
  tags :: json
  metafields_global_title_tag :: string
  metafields_global_description_tag :: string

record productResult =
  created :: bool
  product :: json
  productUrl :: string
  adminUrl :: string

datatype request =
  Get string
| PostUpload string string processedImage
| PostProduct string string product_payload

record env =
  Buffer_from_base64 :: "string \<Rightarrow> buffer"
  axios_get :: "nat \<Rightarrow> string \<Rightarrow> buffer http_outcome"
  sharp_jpeg :: "nat \<Rightarrow> buffer \<Rightarrow> string + buffer"
  Date_now :: "nat \<Rightarrow> nat"
  post_uploads :: "nat \<Rightarrow> string \<Rightarrow> string \<Rightarrow> processedImage \<Rightarrow> json http_outcome"
  post_products :: "string \<Rightarrow> string \<Rightarrow> product_payload \<Rightarrow> json http_outcome"
  JSON_stringify :: "json \<Rightarrow> string"
  render :: "json \<Rightarrow> string"
  TypeError_message :: "json option \<Rightarrow> string"

text \<open>
  The \<^typ>\<open>nat\<close> argument of \<open>axios_get\<close>, \<open>sharp_jpeg\<close>, \<open>Date_now\<close> and \<open>post_uploads\<close>
  is the index of the loop iteration that makes the call, so the outside world may
  answer the same request differently each time. \<open>render\<close> is the text JavaScript gives
  a number, an array or an object in a template literal; \<open>TypeError_message\<close> is the
  engine's message for calling \<^verbatim>\<open>.replace\<close> on a value that is not a string.
\<close>

text \<open>\<^verbatim>\<open>${v}\<close> in a template literal, and \<^verbatim>\<open>v.toString()\<close> on a defined value.\<close>

fun toString :: "env \<Rightarrow> json \<Rightarrow> string" where
  "toString env (JStr s) = s"
| "toString env (JBool b) = (if b then ''true'' else ''false'')"
| "toString env JNull = ''null''"
| "toString env v = render env v"

definition template :: "env \<Rightarrow> json option \<Rightarrow> string" where
  "template env v = (case v of None \<Rightarrow> ''undefined'' | Some j \<Rightarrow> toString env j)"

subsection \<open>\<^verbatim>\<open>processImageForShopify\<close>\<close>

text \<open>
  The sharp pipeline (resize inside 2048 x 2048, JPEG quality 85) either yields the
  re-encoded bytes or throws; the function rethrows with its own prefix.
\<close>

definition processImageForShopify :: "env \<Rightarrow> nat \<Rightarrow> buffer \<Rightarrow> string \<Rightarrow> js_error + processedImage" where
  "processImageForShopify env i imageBuffer fname =
     (case sharp_jpeg env i imageBuffer of
        Inl m \<Rightarrow> Inl (Error (''Image processing failed: '' @ m))
      | Inr processed \<Rightarrow>
          Inr \<lparr>buffer = processed, filename = replace_extension fname,
               mimetype = ''image/jpeg''\<rparr>)"

subsection \<open>\<^verbatim>\<open>uploadImageToShopify\<close>\<close>

text \<open>The body of the \<^verbatim>\<open>try\<close> block: what it returns, or the value it throws.\<close>

definition upload_try ::
  "env \<Rightarrow> nat \<Rightarrow> processedImage \<Rightarrow> string \<Rightarrow> string \<Rightarrow> json thrown + uploadResult" where
  "upload_try env i imageData shopUrl accessToken =
     (let apiUrl = ''https://'' @ shopUrl @ ''/admin/api/2023-10/uploads.json'' in
      case axios (post_uploads env i apiUrl accessToken imageData) of
        Inl err \<Rightarrow> Inl err
      | Inr data \<Rightarrow>
          (case (if truthy data then js_get data ''upload'' else None) of
             None \<Rightarrow> Inl (new_Error ''Invalid response from Shopify upload API'')
           | Some upload \<Rightarrow>
               if truthy upload then
                 (case as_string (js_get upload ''public_url'') of
                    None \<Rightarrow> Inl (new_Error (TypeError_message env (js_get upload ''public_url'')))
                  | Some public_url \<Rightarrow>
                      (let httpsUrl = js_replace public_url ''http://'' ''https://'' in
                       Inr \<lparr>success = True, uploadId = js_get upload ''id'',
                            publicUrl = httpsUrl,
                            uploaded_filename = js_get upload ''key''\<rparr>))
               else Inl (new_Error ''Invalid response from Shopify upload API'')))"

text \<open>The \<^verbatim>\<open>catch\<close> block: it receives whatever the \<^verbatim>\<open>try\<close> block threw.\<close>

definition upload_catch :: "json thrown \<Rightarrow> js_error" where
  "upload_catch error =
     (if response_status error = Some 401 then Error ''Invalid Shopify access token''
      else if response_status error = Some 422 then Error ''Invalid image data or format''
      else Error (''Shopify upload failed: '' @ message error))"

definition uploadImageToShopify ::
  "env \<Rightarrow> nat \<Rightarrow> processedImage \<Rightarrow> string \<Rightarrow> string \<Rightarrow> request list \<times> (js_error + uploadResult)" where
  "uploadImageToShopify env i imageData shopUrl accessToken =
     ([PostUpload (''https://'' @ shopUrl @ ''/admin/api/2023-10/uploads.json'') accessToken imageData],
      case upload_try env i imageData shopUrl accessToken of
        Inl error \<Rightarrow> Inl (upload_catch error)
      | Inr result \<Rightarrow> Inr result)"

subsection \<open>\<^verbatim>\<open>createShopifyProduct\<close>\<close>

text \<open>
  The object literal \<^verbatim>\<open>product.product\<close>. The route's validator admits the request
  only when \<^verbatim>\<open>price\<close> is a number or a numeric string, so \<^verbatim>\<open>price.toString()\<close> is defined.
\<close>

definition product_of :: "env \<Rightarrow> 'a productData_scheme \<Rightarrow> string list \<Rightarrow> product_payload" where
  "product_of env productData imageUrls =
     (let httpsImageUrls = map (\<lambda>url. js_replace url ''http://'' ''https://'') imageUrls in
      \<lparr>title = pd_title productData,
       body_html = pd_description productData,
       vendor = or_default (pd_vendor productData) (JStr ''CraftConnect''),
       product_type = or_default (pd_productType productData) (JStr ''Handmade''),
       status = or_default (pd_status productData) (JStr ''draft''),
       variants =
         [\<lparr>price = toString env (pd_price productData),
           inventory_quantity = or_default (pd_inventory productData) (JNum 1),
           inventory_management = ''shopify'',
           inventory_policy = ''deny''\<rparr>],
       images = map (\<lambda>url. \<lparr>src = url\<rparr>) httpsImageUrls,
       tags = or_default (pd_tags productData) (JStr ''handmade,craft,artisan''),
       metafields_global_title_tag = pd_title productData,
       metafields_global_description_tag = substring0 (pd_description productData) 160\<rparr>)"

definition create_try ::
  "env \<Rightarrow> 'a productData_scheme \<Rightarrow> string list \<Rightarrow> string \<Rightarrow> string \<Rightarrow> json thrown + productResult" where
  "create_try env productData imageUrls shopUrl accessToken =
     (let apiUrl = ''https://'' @ shopUrl @ ''/admin/api/2023-10/products.json'' in
      case axios (post_products env apiUrl accessToken (product_of env productData imageUrls)) of
        Inl err \<Rightarrow> Inl err
      | Inr data \<Rightarrow>
          (case (if truthy data then js_get data ''product'' else None) of
             None \<Rightarrow> Inl (new_Error ''Invalid response from Shopify product creation API'')
           | Some p \<Rightarrow>
               if truthy p then
                 Inr \<lparr>created = True, product = p,
                      productUrl = ''https://'' @ shopUrl @ ''/products/'' @ template env (js_get p ''handle''),
                      adminUrl = ''https://'' @ shopUrl @ ''/admin/products/'' @ template env (js_get p ''id'')\<rparr>
               else Inl (new_Error ''Invalid response from Shopify product creation API'')))"

text \<open>\<^verbatim>\<open>error.response.data?.errors\<close>, then \<^verbatim>\<open>${JSON.stringify(errors)}\<close>.\<close>

definition response_errors :: "json thrown \<Rightarrow> json option" where
  "response_errors error = (case response error of None \<Rightarrow> None | Some (st, d) \<Rightarrow> js_get d ''errors'')"

definition stringified :: "env \<Rightarrow> json option \<Rightarrow> string" where
  "stringified env v = (case v of None \<Rightarrow> ''undefined'' | Some j \<Rightarrow> JSON_stringify env j)"

definition create_catch :: "env \<Rightarrow> json thrown \<Rightarrow> js_error" where
  "create_catch env error =
     (if response_status error = Some 401 then Error ''Invalid Shopify access token''
      else if response_status error = Some 422 then
        Error (''Product validation failed: '' @ stringified env (response_errors error))
      else Error (''Shopify product creation failed: '' @ message error))"

definition createShopifyProduct ::
  "env \<Rightarrow> 'a productData_scheme \<Rightarrow> string list \<Rightarrow> string \<Rightarrow> string \<Rightarrow> request list \<times> (js_error + productResult)" where
  "createShopifyProduct env productData imageUrls shopUrl accessToken =
     ([PostProduct (''https://'' @ shopUrl @ ''/admin/api/2023-10/products.json'') accessToken
         (product_of env productData imageUrls)],
      case create_try env productData imageUrls shopUrl accessToken of
        Inl error \<Rightarrow> Inl (create_catch env error)
      | Inr result \<Rightarrow> Inr result)"

subsection \<open>The handler of \<^verbatim>\<open>POST /upload-product\<close>\<close>

text \<open>
  An element of \<^verbatim>\<open>images\<close> is a parsed JSON value or, for a caller inside the process,
  a Node \<^verbatim>\<open>Buffer\<close>.
\<close>

datatype image = Value json | RawBuffer buffer

record request_body = productData +
  shopUrl :: string
  accessToken :: string
  req_images :: "image list"

record upload_entry =
  productId :: "json option"
  entry_title :: "json option"
  imageUrls :: "string list"
  timestamp :: nat

record session =
  shopifyUploads :: "upload_entry list option"

record reply_data =
  data_product :: json
  data_productUrl :: string
  data_adminUrl :: string
  data_imageUrls :: "string list"
  imageCount :: nat

datatype reply = Json200 reply_data | Json500 string

record outcome =
  reply :: reply
  session_after :: session
  sent :: "request list"

text \<open>Node's message for \<^verbatim>\<open>Buffer.from(undefined, 'base64')\<close>.\<close>

definition Buffer_from_undefined :: string where
  "Buffer_from_undefined =
     ''The first argument must be of type string or an instance of Buffer, ArrayBuffer, or Array or an Array-like Object. Received undefined''"

text \<open>Lines 229-252: the bytes of one source, or the error thrown while reading it.\<close>

fun read_image :: "env \<Rightarrow> nat \<Rightarrow> image \<Rightarrow> request list \<times> (js_error + buffer)" where
  "read_image env i (Value (JStr s)) =
     (if startsWith s ''data:image/'' then
        ([], case second (split_comma s) of
               None \<Rightarrow> Inl (Error Buffer_from_undefined)
             | Some base64Data \<Rightarrow> Inr (Buffer_from_base64 env base64Data))
      else if startsWith s ''http://'' \<or> startsWith s ''https://'' then
        ([Get s], case axios (axios_get env i s) of
                    Inl err \<Rightarrow> Inl (Error (message err))
                  | Inr d \<Rightarrow> Inr d)
      else ([], Inl (Error ''Invalid image format'')))"
| "read_image env i (RawBuffer b) = ([], Inr b)"
| "read_image env i (Value _) = ([], Inl (Error ''Unsupported image type''))"

text \<open>Lines 229-265: the body of the loop's \<^verbatim>\<open>try\<close> block up to the upload's result.\<close>

definition process_image ::
  "env \<Rightarrow> string \<Rightarrow> string \<Rightarrow> nat \<Rightarrow> image \<Rightarrow> request list \<times> (js_error + uploadResult)" where
  "process_image env shop token i img =
     (case read_image env i img of
        (reqs, Inl e) \<Rightarrow> (reqs, Inl e)
      | (reqs, Inr imageBuffer) \<Rightarrow>
          (case processImageForShopify env i imageBuffer
                  (''product_image_'' @ dec (i + 1) @ ''_'' @ dec (Date_now env i) @ ''.jpg'') of
             Inl e \<Rightarrow> (reqs, Inl e)
           | Inr processedImage \<Rightarrow>
               (case uploadImageToShopify env i processedImage (strip_scheme shop) token of
                  (reqs', r) \<Rightarrow> (reqs @ reqs', r))))"

text \<open>
  The \<^verbatim>\<open>for\<close> loop over \<^verbatim>\<open>images\<close>, from index \<open>i\<close> on; the state is the array
  \<^verbatim>\<open>imageUrls\<close> and the requests issued so far. The \<^verbatim>\<open>catch\<close> of an iteration only logs.
\<close>

fun upload_images ::
  "env \<Rightarrow> string \<Rightarrow> string \<Rightarrow> nat \<Rightarrow> image list \<Rightarrow> string list \<times> request list \<Rightarrow> string list \<times> request list" where
  "upload_images env shop token i [] st = st"
| "upload_images env shop token i (img # rest) (urls, reqs) =
     (case process_image env shop token i img of
        (reqs', Inr uploadResult) \<Rightarrow>
          upload_images env shop token (Suc i) rest
            (if success uploadResult then urls @ [publicUrl uploadResult] else urls, reqs @ reqs')
      | (reqs', Inl imageError) \<Rightarrow>
          upload_images env shop token (Suc i) rest (urls, reqs @ reqs'))"

definition upload_product :: "env \<Rightarrow> request_body \<Rightarrow> session \<Rightarrow> outcome" where
  "upload_product env body sess =
     (case upload_images env (shopUrl body) (accessToken body) 0 (req_images body) ([], []) of
        (urls, reqs) \<Rightarrow>
          (case createShopifyProduct env body urls (strip_scheme (shopUrl body)) (accessToken body) of
             (reqs', Inl error) \<Rightarrow>
               \<lparr>reply = Json500 (error_message error), session_after = sess, sent = reqs @ reqs'\<rparr>
           | (reqs', Inr productResult) \<Rightarrow>
               \<lparr>reply = Json200
                   \<lparr>data_product = product productResult,
                    data_productUrl = productUrl productResult,
                    data_adminUrl = adminUrl productResult,
                    data_imageUrls = urls,
                    imageCount = length urls\<rparr>,
                session_after = sess
                  \<lparr>shopifyUploads :=
                     Some ((case shopifyUploads sess of None \<Rightarrow> [] | Some ups \<Rightarrow> ups) @
                       [\<lparr>productId = js_get (product productResult) ''id'',
                         entry_title = js_get (product productResult) ''title'',
                         imageUrls = urls,
                         timestamp = Date_now env (length (req_images body))\<rparr>])\<rparr>,
                sent = reqs @ reqs'\<rparr>))"

subsection \<open>Observers used by the theorems\<close>

text \<open>What iteration \<open>i\<close> pushes onto \<^verbatim>\<open>imageUrls\<close> (lines 267-272), if anything.\<close>

definition image_url :: "env \<Rightarrow> string \<Rightarrow> string \<Rightarrow> nat \<Rightarrow> image \<Rightarrow> string option" where
  "image_url env shop token i img =
     (case snd (process_image env shop token i img) of
        Inl e \<Rightarrow> None
      | Inr r \<Rightarrow> if success r then Some (publicUrl r) else None)"

text \<open>The number of sources before index \<open>i\<close> whose upload succeeded.\<close>

definition successes_before :: "env \<Rightarrow> string \<Rightarrow> string \<Rightarrow> image list \<Rightarrow> nat \<Rightarrow> nat" where
  "successes_before env shop token imgs i =
     length (filter (\<lambda>k. image_url env shop token k (imgs ! k) \<noteq> None) [0..<i])"

text \<open>The array \<^verbatim>\<open>imageUrls\<close> when the loop of a request has ended.\<close>

definition batch_urls :: "env \<Rightarrow> request_body \<Rightarrow> string list" where
  "batch_urls env body =
     fst (upload_images env (shopUrl body) (accessToken body) 0 (req_images body) ([], []))"

text \<open>The requests of a trace, by endpoint.\<close>

fun upload_urls :: "request list \<Rightarrow> string list" where
  "upload_urls [] = []"
| "upload_urls (PostUpload url token img # rs) = url # upload_urls rs"
| "upload_urls (r # rs) = upload_urls rs"

fun product_urls :: "request list \<Rightarrow> string list" where
  "product_urls [] = []"
| "product_urls (PostProduct url token p # rs) = url # product_urls rs"
| "product_urls (r # rs) = product_urls rs"

fun product_payloads :: "request list \<Rightarrow> product_payload list" where
  "product_payloads [] = []"
| "product_payloads (PostProduct url token p # rs) = p # product_payloads rs"
| "product_payloads (r # rs) = product_payloads rs"

text \<open>
  The test the code makes on a response body: \<^verbatim>\<open>response.data && response.data[name]\<close>
  is truthy. Any truthy value passes it, an object or not.
\<close>

definition passes_check :: "json \<Rightarrow> string \<Rightarrow> bool" where
  "passes_check d name =
     (truthy d \<and> (case js_get d name of None \<Rightarrow> False | Some v \<Rightarrow> truthy v))"

text \<open>
  The success shape of section 6 of the specification, \<^verbatim>\<open>{ upload: {...} }\<close> or
  \<^verbatim>\<open>{ product: {...} }\<close>: the body holds an object under the name.
\<close>

definition has_object :: "json \<Rightarrow> string \<Rightarrow> bool" where
  "has_object d name = (case js_get d name of Some (JObj kvs) \<Rightarrow> True | _ \<Rightarrow> False)"

text \<open>
  A source the loop can read: a string with one of the three prefixes, or a buffer
  (the conditions of lines 232-252).
\<close>

fun readable :: "image \<Rightarrow> bool" where
  "readable (Value (JStr s)) =
     (startsWith s ''data:image/'' \<or> startsWith s ''http://'' \<or> startsWith s ''https://'')"
| "readable (RawBuffer b) = True"
| "readable (Value v) = False"

text \<open>
  The kinds of failure of an upload or of a product creation, as section 7 of the
  specification maps them: a 401 from the platform is the invalid-credential error, a 422
  is the validation error, and anything else is the generic transport failure, reported
  with the underlying message. The code throws plain \<^verbatim>\<open>Error\<close> objects, and the three
  branches of each \<^verbatim>\<open>catch\<close> block (401, 422, everything else) differ in the message only,
  so the kind of an error is read from its message.
\<close>

datatype error_kind = AuthError | ValidationError | TransportError

definition spec_error_kind :: "js_error \<Rightarrow> error_kind" where
  "spec_error_kind e =
     (if error_message e = ''Invalid Shopify access token'' then AuthError
      else if error_message e = ''Invalid image data or format''
              \<or> startsWith (error_message e) ''Product validation failed: '' then ValidationError
      else TransportError)"

subsection \<open>A stub of the outside world\<close>

text \<open>
  For the closed examples: image downloads time out, sharp returns its input, the asset
  endpoint answers \<open>uploads i\<close> to the upload of iteration \<open>i\<close>, and the product endpoint
  answers \<open>answer\<close>.
\<close>

definition stub_env :: "(nat \<Rightarrow> json http_outcome) \<Rightarrow> json http_outcome \<Rightarrow> env" where
  "stub_env uploads answer =
     \<lparr>Buffer_from_base64 = (\<lambda>s. []),
      axios_get = (\<lambda>i url. NoResponse ''timeout of 15000ms exceeded''),
      sharp_jpeg = (\<lambda>i b. Inr b),
      Date_now = (\<lambda>i. 0),
      post_uploads = (\<lambda>i url token img. uploads i),
      post_products = (\<lambda>url token p. answer),
      JSON_stringify = (\<lambda>j. ''[object]''),
      render = (\<lambda>j. ''7''),
      TypeError_message = (\<lambda>v. ''public_url.replace is not a function'')\<rparr>"

definition uploaded_as :: "string \<Rightarrow> json http_outcome" where
  "uploaded_as url =
     Response 200 (JObj [(''upload'',
        JObj [(''id'', JNum 1), (''public_url'', JStr url), (''key'', JStr ''a.jpg'')])])"

definition product_created :: "json http_outcome" where
  "product_created =
     Response 201 (JObj [(''product'',
        JObj [(''id'', JNum 7), (''handle'', JStr ''mug''), (''title'', JStr ''Mug'')])])"

definition example_body :: "string \<Rightarrow> image list \<Rightarrow> request_body" where
  "example_body shop imgs =
     \<lparr>pd_title = ''Mug'', pd_description = ''A mug'', pd_price = JStr ''12.50'',
      pd_vendor = None, pd_productType = None, pd_status = None, pd_inventory = None,
      pd_tags = None, shopUrl = shop, accessToken = ''shpat_1'', req_images = imgs\<rparr>"

definition png_data_url :: string where
  "png_data_url = ''data:image/png;base64,iVBORw0KGgo=''"

text \<open>A data URL that holds a complete PNG file: one red pixel, 69 bytes.\<close>

definition pixel_data_url :: string where
  "pixel_data_url =
     ''data:image/png;base64,iVBORw0KGgoAAAANSUhEUgAAAAEAAAABCAIAAACQd1PeAAAADElEQVR4nGP4z8AAAAMBAQDJ/pLvAAAAAElFTkSuQmCC''"

text \<open>
  The text \<^verbatim>\<open>JSON.stringify\<close> gives a value built from \<^verbatim>\<open>null\<close>, booleans, strings
  without control characters, arrays and objects; a number is written by its integer
  part (the examples hold no other number).
\<close>

definition json_quote :: "string \<Rightarrow> string" where
  "json_quote s =
     [CHR 0x22] @
     concat (map (\<lambda>c. if c = CHR 0x22 \<or> c = CHR 0x5C then [CHR 0x5C, c] else [c]) s) @
     [CHR 0x22]"

fun json_text :: "json \<Rightarrow> string"
  and json_items :: "json list \<Rightarrow> string"
  and json_members :: "(string \<times> json) list \<Rightarrow> string" where
  "json_text JNull = ''null''"
| "json_text (JBool b) = (if b then ''true'' else ''false'')"
| "json_text (JNum r) = (if r < 0 then ''-'' else []) @ dec (nat \<lfloor>\<bar>r\<bar>\<rfloor>)"
| "json_text (JStr s) = json_quote s"
| "json_text (JArr xs) = ''['' @ json_items xs @ '']''"
| "json_text (JObj kvs) = ''{'' @ json_members kvs @ ''}''"
| "json_items [] = []"
| "json_items [x] = json_text x"
| "json_items (x # y # ys) = json_text x @ '','' @ json_items (y # ys)"
| "json_members [] = []"
| "json_members [(k, v)] = json_quote k @ '':'' @ json_text v"
| "json_members ((k, v) # kv # kvs) = json_quote k @ '':'' @ json_text v @ '','' @ json_members (kv # kvs)"

section \<open>Properties\<close>

subsection \<open>Lists\<close>

lemma enumerate_as_map: "enumerate 0 xs = map (\<lambda>k. (k, xs ! k)) [0..<length xs]"
  by (rule nth_equalityI) (auto simp: nth_enumerate_eq)

lemma map_filter_map:
  "List.map_filter f (map g ks) = map (\<lambda>k. the (f (g k))) (filter (\<lambda>k. f (g k) \<noteq> None) ks)"
  by (simp add: List.map_filter_def filter_map comp_def)

lemma map_filter_enumerate:
  "List.map_filter f (enumerate 0 xs) =
     map (\<lambda>k. the (f (k, xs ! k))) (filter (\<lambda>k. f (k, xs ! k) \<noteq> None) [0..<length xs])"
  unfolding enumerate_as_map map_filter_map ..

lemma filter_upt_split:
  assumes "i < n" "P i"
  shows "filter P [0..<n] = filter P [0..<i] @ i # filter P [Suc i..<n]"
proof -
  have "[0..<n] = [0..<i] @ [i..<n]"
    using assms(1) upt_add_eq_append [of 0 i "n - i"] by simp
  moreover have "[i..<n] = i # [Suc i..<n]"
    using assms(1) by (rule upt_conv_Cons)
  ultimately show ?thesis using assms(2) by simp
qed

subsection \<open>The loop over the image sources\<close>

lemma upload_images_step:
  "upload_images env shop token i (img # rest) (urls, reqs) =
     upload_images env shop token (Suc i) rest
       (urls @ (case image_url env shop token i img of None \<Rightarrow> [] | Some u \<Rightarrow> [u]),
        reqs @ fst (process_image env shop token i img))"
  by (simp add: image_url_def split: prod.splits sum.splits)

lemma upload_images_urls:
  "fst (upload_images env shop token i imgs (urls, reqs)) =
     urls @ List.map_filter (\<lambda>(k, img). image_url env shop token k img) (enumerate i imgs)"
proof (induction imgs arbitrary: i urls reqs)
  case Nil
  show ?case by simp
next
  case (Cons img rest)
  show ?case
    unfolding upload_images_step Cons.IH
    by (simp split: option.splits)
qed

lemma upload_images_sent:
  "snd (upload_images env shop token i imgs (urls, reqs)) =
     reqs @ concat (map (\<lambda>(k, img). fst (process_image env shop token k img)) (enumerate i imgs))"
proof (induction imgs arbitrary: i urls reqs)
  case Nil
  show ?case by simp
next
  case (Cons img rest)
  show ?case
    unfolding upload_images_step Cons.IH
    by simp
qed

lemma upload_images_append:
  "upload_images env shop token i (xs @ ys) st =
     upload_images env shop token (i + length xs) ys (upload_images env shop token i xs st)"
proof (induction xs arbitrary: i st)
  case Nil
  show ?case by simp
next
  case (Cons x xs)
  obtain urls reqs where st: "st = (urls, reqs)" by (cases st)
  show ?case
    unfolding st append_Cons upload_images_step Cons.IH by simp
qed

lemma batch_urls_filter:
  "batch_urls env body =
     map (\<lambda>k. the (image_url env (shopUrl body) (accessToken body) k (req_images body ! k)))
       (filter (\<lambda>k. image_url env (shopUrl body) (accessToken body) k (req_images body ! k) \<noteq> None)
          [0..<length (req_images body)])"
  unfolding batch_urls_def upload_images_urls
  by (simp add: map_filter_enumerate)

subsection \<open>The requests a run issues\<close>

lemma upload_urls_append: "upload_urls (xs @ ys) = upload_urls xs @ upload_urls ys"
  by (induction xs rule: upload_urls.induct) simp_all

lemma product_urls_append: "product_urls (xs @ ys) = product_urls xs @ product_urls ys"
  by (induction xs rule: product_urls.induct) simp_all

lemma product_payloads_append:
  "product_payloads (xs @ ys) = product_payloads xs @ product_payloads ys"
  by (induction xs rule: product_payloads.induct) simp_all

lemma read_image_requests:
  "upload_urls (fst (read_image env i img)) = [] \<and>
   product_urls (fst (read_image env i img)) = [] \<and>
   product_payloads (fst (read_image env i img)) = []"
  by (cases "(env, i, img)" rule: read_image.cases) simp_all

lemma process_image_requests:
  "set (upload_urls (fst (process_image env shop token i img)))
     \<subseteq> {''https://'' @ strip_scheme shop @ ''/admin/api/2023-10/uploads.json''} \<and>
   product_urls (fst (process_image env shop token i img)) = [] \<and>
   product_payloads (fst (process_image env shop token i img)) = []"
  using read_image_requests [of env i img]
  by (auto simp: process_image_def uploadImageToShopify_def upload_urls_append
      product_urls_append product_payloads_append split: prod.splits sum.splits)

lemma loop_requests:
  "set (upload_urls (snd (upload_images env shop token i imgs ([], []))))
     \<subseteq> {''https://'' @ strip_scheme shop @ ''/admin/api/2023-10/uploads.json''} \<and>
   product_urls (snd (upload_images env shop token i imgs ([], []))) = [] \<and>
   product_payloads (snd (upload_images env shop token i imgs ([], []))) = []"
proof (induction imgs arbitrary: i rule: rev_induct)
  case Nil
  show ?case by simp
next
  case (snoc img imgs)
  obtain urls reqs where st: "upload_images env shop token i imgs ([], []) = (urls, reqs)"
    by (cases "upload_images env shop token i imgs ([], [])")
  have "snd (upload_images env shop token i (imgs @ [img]) ([], [])) =
          reqs @ fst (process_image env shop token (i + length imgs) img)"
    unfolding upload_images_append st upload_images_step by simp
  then show ?case
    using snoc [of i] process_image_requests [of env shop token "i + length imgs" img]
    by (simp add: st upload_urls_append product_urls_append product_payloads_append)
qed

subsection \<open>The handler as a whole\<close>

lemma upload_product_sent:
  "sent (upload_product env body sess) =
     snd (upload_images env (shopUrl body) (accessToken body) 0 (req_images body) ([], [])) @
     [PostProduct (''https://'' @ strip_scheme (shopUrl body) @ ''/admin/api/2023-10/products.json'')
        (accessToken body) (product_of env body (batch_urls env body))]"
  by (simp add: upload_product_def batch_urls_def createShopifyProduct_def
      split: prod.splits sum.splits)

lemma upload_product_payloads:
  "product_payloads (sent (upload_product env body sess)) =
     [product_of env body (batch_urls env body)]"
  using loop_requests [of env "shopUrl body" "accessToken body" 0 "req_images body"]
  by (simp add: upload_product_sent product_payloads_append)

lemma upload_product_reply:
  "reply (upload_product env body sess) =
     (case snd (createShopifyProduct env body (batch_urls env body)
                  (strip_scheme (shopUrl body)) (accessToken body)) of
        Inl error \<Rightarrow> Json500 (error_message error)
      | Inr r \<Rightarrow> Json200
          \<lparr>data_product = product r, data_productUrl = productUrl r, data_adminUrl = adminUrl r,
           data_imageUrls = batch_urls env body, imageCount = length (batch_urls env body)\<rparr>)"
  by (simp add: upload_product_def batch_urls_def split: prod.splits sum.splits)

lemma upload_product_session:
  "session_after (upload_product env body sess) =
     (case snd (createShopifyProduct env body (batch_urls env body)
                  (strip_scheme (shopUrl body)) (accessToken body)) of
        Inl error \<Rightarrow> sess
      | Inr r \<Rightarrow> sess
          \<lparr>shopifyUploads :=
             Some ((case shopifyUploads sess of None \<Rightarrow> [] | Some ups \<Rightarrow> ups) @
               [\<lparr>productId = js_get (product r) ''id'', entry_title = js_get (product r) ''title'',
                 imageUrls = batch_urls env body,
                 timestamp = Date_now env (length (req_images body))\<rparr>])\<rparr>)"
  by (simp add: upload_product_def batch_urls_def split: prod.splits sum.splits)

lemma strip_scheme_http: "strip_scheme (''http://'' @ h) = h"
  by (simp add: strip_scheme_def startsWith_def)

lemma strip_scheme_https: "strip_scheme (''https://'' @ h) = h"
  by (simp add: strip_scheme_def startsWith_def)

subsection \<open>The order of the uploaded images\<close>

lemma batch_urls_length: "length (batch_urls env body) \<le> length (req_images body)"
  unfolding batch_urls_filter
  using length_filter_le [of "\<lambda>k. image_url env (shopUrl body) (accessToken body) k (req_images body ! k) \<noteq> None" "[0..<length (req_images body)]"]
  by simp

lemma batch_urls_map_filter:
  "batch_urls env body =
     List.map_filter (\<lambda>(i, img). image_url env (shopUrl body) (accessToken body) i img)
       (enumerate 0 (req_images body))"
  unfolding batch_urls_def upload_images_urls by simp

lemma batch_urls_nth:
  assumes "k < length (req_images body)"
    and "image_url env (shopUrl body) (accessToken body) k (req_images body ! k) = Some w"
  shows "successes_before env (shopUrl body) (accessToken body) (req_images body) k
           < length (batch_urls env body) \<and>
         batch_urls env body ! successes_before env (shopUrl body) (accessToken body) (req_images body) k = w"
proof -
  define ok where "ok = (\<lambda>k. image_url env (shopUrl body) (accessToken body) k (req_images body ! k) \<noteq> None)"
  define g where "g = (\<lambda>k. the (image_url env (shopUrl body) (accessToken body) k (req_images body ! k)))"
  define A where "A = filter ok [0..<k]"
  define B where "B = filter ok [Suc k..<length (req_images body)]"
  have "ok k" using assms(2) by (simp add: ok_def)
  then have "filter ok [0..<length (req_images body)] = A @ k # B"
    unfolding A_def B_def using assms(1) by (intro filter_upt_split)
  moreover have "batch_urls env body = map g (filter ok [0..<length (req_images body)])"
    unfolding g_def ok_def by (rule batch_urls_filter)
  moreover have "g k = w" using assms(2) by (simp add: g_def)
  ultimately have "batch_urls env body = map g A @ w # map g B"
    by simp
  moreover have "successes_before env (shopUrl body) (accessToken body) (req_images body) k
                   = length (map g A)"
    by (simp add: successes_before_def A_def ok_def)
  ultimately show ?thesis
    by (simp add: nth_append)
qed

lemma successes_before_mono:
  assumes "i < j"
    and "image_url env shop token i (imgs ! i) = Some u"
  shows "successes_before env shop token imgs i < successes_before env shop token imgs j"
proof -
  define ok where "ok = (\<lambda>k. image_url env shop token k (imgs ! k) \<noteq> None)"
  have "ok i" using assms(2) by (simp add: ok_def)
  then have "filter ok [0..<j] = filter ok [0..<i] @ i # filter ok [Suc i..<j]"
    using assms(1) by (intro filter_upt_split)
  then have "length (filter ok [0..<i]) < length (filter ok [0..<j])"
    by simp
  then show ?thesis
    by (simp add: successes_before_def ok_def)
qed

text \<open>
  Claim C2. The loop pushes at most one URL per source, so the batch is no longer than
  the input; the batch is exactly the URLs of the sources whose upload succeeded, listed
  by increasing index of the source. Hence for sources \<open>i < j\<close> that both succeed, the
  result of \<open>i\<close> stands at position \<open>successes_before i\<close>, the result of \<open>j\<close> at position
  \<open>successes_before j\<close>, and the first position is the smaller one.
\<close>

theorem batch_order_preserved:
  "length (batch_urls env body) \<le> length (req_images body) \<and>
   batch_urls env body =
     List.map_filter (\<lambda>(i, img). image_url env (shopUrl body) (accessToken body) i img)
       (enumerate 0 (req_images body)) \<and>
   (\<forall>i j u v. i < j \<and> j < length (req_images body) \<and>
       image_url env (shopUrl body) (accessToken body) i (req_images body ! i) = Some u \<and>
       image_url env (shopUrl body) (accessToken body) j (req_images body ! j) = Some v \<longrightarrow>
       successes_before env (shopUrl body) (accessToken body) (req_images body) i
         < successes_before env (shopUrl body) (accessToken body) (req_images body) j \<and>
       successes_before env (shopUrl body) (accessToken body) (req_images body) j
         < length (batch_urls env body) \<and>
       batch_urls env body ! successes_before env (shopUrl body) (accessToken body) (req_images body) i = u \<and>
       batch_urls env body ! successes_before env (shopUrl body) (accessToken body) (req_images body) j = v)"
proof (intro conjI allI impI)
  show "length (batch_urls env body) \<le> length (req_images body)"
    by (rule batch_urls_length)
  show "batch_urls env body =
     List.map_filter (\<lambda>(i, img). image_url env (shopUrl body) (accessToken body) i img)
       (enumerate 0 (req_images body))"
    by (rule batch_urls_map_filter)
next
  fix i j u v
  assume a: "i < j \<and> j < length (req_images body) \<and>
       image_url env (shopUrl body) (accessToken body) i (req_images body ! i) = Some u \<and>
       image_url env (shopUrl body) (accessToken body) j (req_images body ! j) = Some v"
  then have i: "i < length (req_images body)" by simp
  show "successes_before env (shopUrl body) (accessToken body) (req_images body) i
         < successes_before env (shopUrl body) (accessToken body) (req_images body) j"
    using a by (intro successes_before_mono [of i j _ _ _ _ u]) simp_all
  show "successes_before env (shopUrl body) (accessToken body) (req_images body) j
         < length (batch_urls env body)"
    using a batch_urls_nth [of j body env v] by simp
  show "batch_urls env body ! successes_before env (shopUrl body) (accessToken body) (req_images body) i = u"
    using a i batch_urls_nth [of i body env u] by simp
  show "batch_urls env body ! successes_before env (shopUrl body) (accessToken body) (req_images body) j = v"
    using a batch_urls_nth [of j body env v] by simp
qed

theorem batch_order_preserved_witness:
  "batch_urls (stub_env (\<lambda>i. uploaded_as (''http://cdn.shopify.com/'' @ dec i @ ''.jpg'')) product_created)
     (example_body ''shop.myshopify.com''
        [Value (JStr png_data_url), Value (JStr ''http://unreachable.example/b.png''),
         Value (JStr png_data_url)])
     = [''https://cdn.shopify.com/0.jpg'', ''https://cdn.shopify.com/2.jpg''] \<and>
   successes_before (stub_env (\<lambda>i. uploaded_as (''http://cdn.shopify.com/'' @ dec i @ ''.jpg'')) product_created)
     ''shop.myshopify.com'' ''shpat_1''
     [Value (JStr png_data_url), Value (JStr ''http://unreachable.example/b.png''),
      Value (JStr png_data_url)] 0 = 0 \<and>
   successes_before (stub_env (\<lambda>i. uploaded_as (''http://cdn.shopify.com/'' @ dec i @ ''.jpg'')) product_created)
     ''shop.myshopify.com'' ''shpat_1''
     [Value (JStr png_data_url), Value (JStr ''http://unreachable.example/b.png''),
      Value (JStr png_data_url)] 2 = 1"
proof -
  let ?env = "stub_env (\<lambda>i. uploaded_as (''http://cdn.shopify.com/'' @ dec i @ ''.jpg'')) product_created"
  let ?imgs = "[Value (JStr png_data_url), Value (JStr ''http://unreachable.example/b.png''),
                Value (JStr png_data_url)]"
  let ?body = "example_body ''shop.myshopify.com'' ?imgs"
  have b: "shopUrl ?body = ''shop.myshopify.com''" "accessToken ?body = ''shpat_1''"
    "req_images ?body = ?imgs"
    by (simp_all add: example_body_def)
  have h0: "image_url ?env ''shop.myshopify.com'' ''shpat_1'' 0 (?imgs ! 0)
              = Some ''https://cdn.shopify.com/0.jpg''"
    by code_simp
  have h2: "image_url ?env ''shop.myshopify.com'' ''shpat_1'' 2 (?imgs ! 2)
              = Some ''https://cdn.shopify.com/2.jpg''"
    by code_simp
  have urls: "batch_urls ?env ?body = [''https://cdn.shopify.com/0.jpg'', ''https://cdn.shopify.com/2.jpg'']"
    by code_simp
  have s0: "successes_before ?env ''shop.myshopify.com'' ''shpat_1'' ?imgs 0 = 0"
    by (simp add: successes_before_def)
  have h: "(0::nat) < 2 \<and> 2 < length ?imgs \<and>
       image_url ?env ''shop.myshopify.com'' ''shpat_1'' 0 (?imgs ! 0) = Some ''https://cdn.shopify.com/0.jpg'' \<and>
       image_url ?env ''shop.myshopify.com'' ''shpat_1'' 2 (?imgs ! 2) = Some ''https://cdn.shopify.com/2.jpg''"
    using h0 h2 by simp
  note batch_order_preserved [of ?env ?body, THEN conjunct2, THEN conjunct2, rule_format,
      of 0 2 "''https://cdn.shopify.com/0.jpg''" "''https://cdn.shopify.com/2.jpg''", unfolded b, OF h]
  then have "successes_before ?env ''shop.myshopify.com'' ''shpat_1'' ?imgs 2 < length (batch_urls ?env ?body)"
    and "0 < successes_before ?env ''shop.myshopify.com'' ''shpat_1'' ?imgs 2"
    unfolding s0 by blast+
  then have "successes_before ?env ''shop.myshopify.com'' ''shpat_1'' ?imgs 2 = 1"
    unfolding urls by simp
  then show ?thesis using urls s0 by blast
qed

subsection \<open>The payload of the product request\<close>

text \<open>
  Claim C7. When the description is longer than 160 code units, the one product request
  of the run carries as \<^verbatim>\<open>metafields_global_description_tag\<close> the first 160 code units of
  the description, of length exactly 160, and as \<^verbatim>\<open>body_html\<close> the whole description.
\<close>

theorem meta_description_truncated:
  assumes "160 < length (pd_description body)"
  shows "\<exists>p. product_payloads (sent (upload_product env body sess)) = [p] \<and>
           metafields_global_description_tag p = take 160 (pd_description body) \<and>
           length (metafields_global_description_tag p) = 160 \<and>
           body_html p = pd_description body"
  using assms
  by (simp add: upload_product_payloads product_of_def substring0_def)

theorem meta_description_truncated_witness:
  "160 < length (pd_description (example_body ''shop.myshopify.com'' []
            \<lparr>pd_description := replicate 200 CHR ''a''\<rparr>)) \<and>
   (\<exists>p. product_payloads (sent (upload_product (stub_env (\<lambda>i. uploaded_as []) product_created)
            (example_body ''shop.myshopify.com'' [] \<lparr>pd_description := replicate 200 CHR ''a''\<rparr>)
            \<lparr>shopifyUploads = None\<rparr>)) = [p] \<and>
        metafields_global_description_tag p = replicate 160 CHR ''a'' \<and>
        length (metafields_global_description_tag p) = 160 \<and>
        body_html p = replicate 200 CHR ''a'')"
proof -
  have h: "160 < length (pd_description (example_body ''shop.myshopify.com'' []
            \<lparr>pd_description := replicate 200 CHR ''a''\<rparr>))"
    by (simp add: example_body_def)
  show ?thesis
    using h meta_description_truncated [OF h,
        of "stub_env (\<lambda>i. uploaded_as []) product_created" "\<lparr>shopifyUploads = None\<rparr>"]
    by (simp add: example_body_def)
qed

text \<open>
  Claim C9. The one product request of a run has one variant, and its
  \<^verbatim>\<open>inventory_quantity\<close> is never the number 0; when the request's \<^verbatim>\<open>inventory\<close> is absent
  or is the number 0, it is the number 1 (\<^verbatim>\<open>productData.inventory || 1\<close>).
\<close>

theorem inventory_defaults_to_one:
  "\<exists>p v. product_payloads (sent (upload_product env body sess)) = [p] \<and> variants p = [v] \<and>
     inventory_quantity v \<noteq> JNum 0 \<and>
     (pd_inventory body = None \<or> pd_inventory body = Some (JNum 0) \<longrightarrow> inventory_quantity v = JNum 1)"
  by (auto simp: upload_product_payloads product_of_def or_default_def split: option.splits)

theorem inventory_defaults_to_one_witness:
  "pd_inventory (example_body ''shop.myshopify.com'' [] \<lparr>pd_inventory := Some (JNum 0)\<rparr>) = Some (JNum 0) \<and>
   (\<exists>p v. product_payloads (sent (upload_product (stub_env (\<lambda>i. uploaded_as []) product_created)
            (example_body ''shop.myshopify.com'' [] \<lparr>pd_inventory := Some (JNum 0)\<rparr>)
            \<lparr>shopifyUploads = None\<rparr>)) = [p] \<and> variants p = [v] \<and> inventory_quantity v = JNum 1) \<and>
   pd_inventory (example_body ''shop.myshopify.com'' []) = None \<and>
   (\<exists>p v. product_payloads (sent (upload_product (stub_env (\<lambda>i. uploaded_as []) product_created)
            (example_body ''shop.myshopify.com'' [])
            \<lparr>shopifyUploads = None\<rparr>)) = [p] \<and> variants p = [v] \<and> inventory_quantity v = JNum 1)"
proof -
  let ?env = "stub_env (\<lambda>i. uploaded_as []) product_created"
  have h: "pd_inventory (example_body ''shop.myshopify.com'' [] \<lparr>pd_inventory := Some (JNum 0)\<rparr>) = Some (JNum 0)"
    by (simp add: example_body_def)
  have n: "pd_inventory (example_body ''shop.myshopify.com'' []) = None"
    by (simp add: example_body_def)
  show ?thesis
    using h n
      inventory_defaults_to_one [of ?env
        "example_body ''shop.myshopify.com'' [] \<lparr>pd_inventory := Some (JNum 0)\<rparr>" "\<lparr>shopifyUploads = None\<rparr>"]
      inventory_defaults_to_one [of ?env "example_body ''shop.myshopify.com'' []" "\<lparr>shopifyUploads = None\<rparr>"]
    by auto
qed

subsection \<open>The shop identifier\<close>

text \<open>
  Claim C8. When the shop identifier starts with \<^verbatim>\<open>http://\<close> or \<^verbatim>\<open>https://\<close>, the prefix is
  stripped, every asset upload of the run goes to \<^verbatim>\<open>https://<host>/admin/api/2023-10/uploads.json\<close>
  and the product creation goes to \<^verbatim>\<open>https://<host>/admin/api/2023-10/products.json\<close>.
\<close>

theorem shop_scheme_stripped:
  assumes "shopUrl body = ''http://'' @ h \<or> shopUrl body = ''https://'' @ h"
  shows "strip_scheme (shopUrl body) = h \<and>
         set (upload_urls (sent (upload_product env body sess)))
           \<subseteq> {''https://'' @ h @ ''/admin/api/2023-10/uploads.json''} \<and>
         product_urls (sent (upload_product env body sess))
           = [''https://'' @ h @ ''/admin/api/2023-10/products.json'']"
proof -
  have h: "strip_scheme (shopUrl body) = h"
    using assms strip_scheme_http strip_scheme_https by auto
  show ?thesis
    using loop_requests [of env "shopUrl body" "accessToken body" 0 "req_images body"]
    by (simp add: h upload_product_sent upload_urls_append product_urls_append)
qed

theorem shop_scheme_stripped_witness:
  "shopUrl (example_body ''http://shop.myshopify.com'' [Value (JStr png_data_url)]) = ''http://'' @ ''shop.myshopify.com'' \<and>
   upload_urls (sent (upload_product (stub_env (\<lambda>i. uploaded_as ''https://cdn.shopify.com/a.jpg'') product_created)
       (example_body ''http://shop.myshopify.com'' [Value (JStr png_data_url)]) \<lparr>shopifyUploads = None\<rparr>))
     = [''https://shop.myshopify.com/admin/api/2023-10/uploads.json''] \<and>
   product_urls (sent (upload_product (stub_env (\<lambda>i. uploaded_as ''https://cdn.shopify.com/a.jpg'') product_created)
       (example_body ''http://shop.myshopify.com'' [Value (JStr png_data_url)]) \<lparr>shopifyUploads = None\<rparr>))
     = [''https://shop.myshopify.com/admin/api/2023-10/products.json'']"
proof -
  let ?env = "stub_env (\<lambda>i. uploaded_as ''https://cdn.shopify.com/a.jpg'') product_created"
  let ?body = "example_body ''http://shop.myshopify.com'' [Value (JStr png_data_url)]"
  have h: "shopUrl ?body = ''http://'' @ ''shop.myshopify.com'' \<or> shopUrl ?body = ''https://'' @ ''shop.myshopify.com''"
    by (simp add: example_body_def)
  from shop_scheme_stripped [OF h, of ?env "\<lparr>shopifyUploads = None\<rparr>"]
  have p: "product_urls (sent (upload_product ?env ?body \<lparr>shopifyUploads = None\<rparr>))
           = [''https://shop.myshopify.com/admin/api/2023-10/products.json'']"
    by simp
  have "upload_urls (sent (upload_product ?env ?body \<lparr>shopifyUploads = None\<rparr>))
     = [''https://shop.myshopify.com/admin/api/2023-10/uploads.json'']"
    by code_simp
  then show ?thesis using p by (simp add: example_body_def)
qed

subsection \<open>Failures of single images\<close>






lemma unreadable_process_image:
  assumes "\<not> readable img"
  shows "fst (process_image env shop token i img) = [] \<and>
         snd (process_image env shop token i img)
           \<in> {Inl (Error ''Invalid image format''), Inl (Error ''Unsupported image type'')}"
  using assms
  by (cases "(env, i, img)" rule: read_image.cases) (simp_all add: process_image_def)

text \<open>
  Claim C10. A source that is a string with none of the prefixes \<^verbatim>\<open>data:image/\<close>,
  \<^verbatim>\<open>http://\<close>, \<^verbatim>\<open>https://\<close>, or that is neither a string nor a buffer, issues no request
  and ends in the error \<^verbatim>\<open>Invalid image format\<close> or \<^verbatim>\<open>Unsupported image type\<close>, which the
  loop only logs: the source pushes no URL, and the loop continues with the sources
  after it from the state the sources before it left. The batch of the request is the
  URLs of the sources before it followed by the URLs of the sources after it, and the
  product request is issued with that many images.
\<close>

theorem unreadable_source_dropped:
  assumes "\<not> readable img"
  shows "fst (process_image env shop token i img) = [] \<and>
         snd (process_image env shop token i img)
           \<in> {Inl (Error ''Invalid image format''), Inl (Error ''Unsupported image type'')} \<and>
         image_url env shop token i img = None \<and>
         upload_images env shop token i (img # rest) st = upload_images env shop token (Suc i) rest st \<and>
         upload_images env shop token i (xs @ img # ys) st =
           upload_images env shop token (Suc (i + length xs)) ys (upload_images env shop token i xs st) \<and>
         (req_images body = xs @ img # ys \<longrightarrow>
            batch_urls env body =
              fst (upload_images env (shopUrl body) (accessToken body) 0 xs ([], [])) @
              fst (upload_images env (shopUrl body) (accessToken body) (Suc (length xs)) ys ([], [])) \<and>
            (\<exists>p. product_payloads (sent (upload_product env body sess)) = [p] \<and>
                 length (images p) = length (batch_urls env body)))"
proof -
  note p = unreadable_process_image [OF assms, of env]
  have u: "image_url env shop' token' k img = None" for shop' token' k
    using p [of shop' token' k] by (auto simp: image_url_def)
  have s: "upload_images env shop' token' k (img # rest') st' = upload_images env shop' token' (Suc k) rest' st'"
    for shop' token' k rest' st'
    using p [of shop' token' k] u [of shop' token' k]
    by (cases st') (simp add: upload_images_step del: upload_images.simps(2))
  have a: "upload_images env shop' token' k (xs @ img # ys) st' =
           upload_images env shop' token' (Suc (k + length xs)) ys (upload_images env shop' token' k xs st')"
    for shop' token' k st'
    by (simp add: upload_images_append s)
  have b: "batch_urls env body =
              fst (upload_images env (shopUrl body) (accessToken body) 0 xs ([], [])) @
              fst (upload_images env (shopUrl body) (accessToken body) (Suc (length xs)) ys ([], []))"
    if r: "req_images body = xs @ img # ys"
  proof -
    obtain urls reqs where st: "upload_images env (shopUrl body) (accessToken body) 0 xs ([], []) = (urls, reqs)"
      by (cases "upload_images env (shopUrl body) (accessToken body) 0 xs ([], [])")
    show ?thesis
      unfolding batch_urls_def r a st
      by (simp add: upload_images_urls)
  qed
  have c: "\<exists>p. product_payloads (sent (upload_product env body sess)) = [p] \<and>
                 length (images p) = length (batch_urls env body)"
    by (simp add: upload_product_payloads product_of_def)
  show ?thesis
    using p [of shop token i] u [of shop token i] s [of shop token i rest st] a [of shop token i st] b c
    by blast
qed

theorem unreadable_source_dropped_witness:
  "\<not> readable (Value (JStr ''file:///tmp/b.png'')) \<and>
   image_url (stub_env (\<lambda>i. uploaded_as (''http://cdn.shopify.com/'' @ dec i @ ''.jpg'')) product_created)
      ''shop.myshopify.com'' ''shpat_1'' 1 (Value (JStr ''file:///tmp/b.png'')) = None \<and>
   batch_urls (stub_env (\<lambda>i. uploaded_as (''http://cdn.shopify.com/'' @ dec i @ ''.jpg'')) product_created)
      (example_body ''shop.myshopify.com''
         [Value (JStr png_data_url), Value (JStr ''file:///tmp/b.png''), Value (JStr png_data_url)])
     = [''https://cdn.shopify.com/0.jpg'', ''https://cdn.shopify.com/2.jpg''] \<and>
   (\<exists>p. product_payloads (sent (upload_product
        (stub_env (\<lambda>i. uploaded_as (''http://cdn.shopify.com/'' @ dec i @ ''.jpg'')) product_created)
        (example_body ''shop.myshopify.com''
           [Value (JStr png_data_url), Value (JStr ''file:///tmp/b.png''), Value (JStr png_data_url)])
        \<lparr>shopifyUploads = None\<rparr>)) = [p] \<and>
      length (images p) = 2)"
proof -
  let ?env = "stub_env (\<lambda>i. uploaded_as (''http://cdn.shopify.com/'' @ dec i @ ''.jpg'')) product_created"
  let ?bad = "Value (JStr ''file:///tmp/b.png'')"
  let ?body = "example_body ''shop.myshopify.com'' [Value (JStr png_data_url), ?bad, Value (JStr png_data_url)]"
  have h: "\<not> readable ?bad"
    by (simp add: startsWith_def)
  have r: "req_images ?body = [Value (JStr png_data_url)] @ ?bad # [Value (JStr png_data_url)]"
    by (simp add: example_body_def)
  note t = unreadable_source_dropped [OF h, of ?env "''shop.myshopify.com''" "''shpat_1''" 1 "[]" "([], [])"
      "[Value (JStr png_data_url)]" "[Value (JStr png_data_url)]" ?body "\<lparr>shopifyUploads = None\<rparr>"]
  have u: "image_url ?env ''shop.myshopify.com'' ''shpat_1'' 1 ?bad = None"
    using t by blast
  have l: "\<exists>p. product_payloads (sent (upload_product ?env ?body \<lparr>shopifyUploads = None\<rparr>)) = [p] \<and>
                 length (images p) = length (batch_urls ?env ?body)"
    using t r by blast
  have urls: "batch_urls ?env ?body = [''https://cdn.shopify.com/0.jpg'', ''https://cdn.shopify.com/2.jpg'']"
    by code_simp
  from l obtain p where p1: "product_payloads (sent (upload_product ?env ?body \<lparr>shopifyUploads = None\<rparr>)) = [p]"
    and p2: "length (images p) = length (batch_urls ?env ?body)"
    by blast
  have "length (images p) = 2"
    using p2 unfolding urls by simp
  then show ?thesis using h u urls p1 by blast
qed

subsection \<open>Failures of the product request\<close>

lemma create_422:
  assumes "post_products env (''https://'' @ shop @ ''/admin/api/2023-10/products.json'') token
             (product_of env productData urls) = Response 422 d"
  shows "snd (createShopifyProduct env productData urls shop token) =
           Inl (Error (''Product validation failed: '' @
                  (case js_get d ''errors'' of None \<Rightarrow> ''undefined'' | Some errors \<Rightarrow> JSON_stringify env errors)))"
  using assms
  by (simp add: createShopifyProduct_def create_try_def axios_def create_catch_def
      response_status_def response_errors_def stringified_def)

lemma validation_kind:
  "spec_error_kind (Error (''Product validation failed: '' @ m)) = ValidationError"
  by (simp add: spec_error_kind_def startsWith_def)

text \<open>
  Claim C5. When the product endpoint answers 422, \<^verbatim>\<open>createShopifyProduct\<close> throws an
  error of the validation kind whose message is \<^verbatim>\<open>Product validation failed: \<close> followed by
  \<^verbatim>\<open>JSON.stringify\<close> of exactly the \<^verbatim>\<open>errors\<close> value of the response body (the text
  \<^verbatim>\<open>undefined\<close> when the body has none); the handler replies with status 500 and that
  message, and the session is as it was. Whenever the handler replies 500, nothing has
  been appended to \<^verbatim>\<open>shopifyUploads\<close>.
\<close>

theorem product_validation_failure:
  "(post_products env (''https://'' @ strip_scheme (shopUrl body) @ ''/admin/api/2023-10/products.json'')
        (accessToken body) (product_of env body (batch_urls env body)) = Response 422 d \<longrightarrow>
      (\<exists>err. snd (createShopifyProduct env body (batch_urls env body)
                    (strip_scheme (shopUrl body)) (accessToken body)) = Inl err \<and>
             spec_error_kind err = ValidationError \<and>
             reply (upload_product env body sess) = Json500 (error_message err) \<and>
             (\<forall>errors. js_get d ''errors'' = Some errors \<longrightarrow>
                error_message err = ''Product validation failed: '' @ JSON_stringify env errors) \<and>
             (js_get d ''errors'' = None \<longrightarrow>
                error_message err = ''Product validation failed: undefined'')) \<and>
      session_after (upload_product env body sess) = sess) \<and>
   (\<forall>m. reply (upload_product env body sess) = Json500 m \<longrightarrow>
      session_after (upload_product env body sess) = sess)"
proof (intro conjI impI allI)
  assume a: "post_products env (''https://'' @ strip_scheme (shopUrl body) @ ''/admin/api/2023-10/products.json'')
        (accessToken body) (product_of env body (batch_urls env body)) = Response 422 d"
  define msg where "msg = (case js_get d ''errors'' of None \<Rightarrow> ''undefined''
                              | Some errors \<Rightarrow> JSON_stringify env errors)"
  have c: "snd (createShopifyProduct env body (batch_urls env body)
                    (strip_scheme (shopUrl body)) (accessToken body))
             = Inl (Error (''Product validation failed: '' @ msg))"
    unfolding msg_def by (rule create_422 [OF a])
  have r: "reply (upload_product env body sess) = Json500 (''Product validation failed: '' @ msg)"
    by (simp add: upload_product_reply c)
  have e: "\<forall>errors. js_get d ''errors'' = Some errors \<longrightarrow>
             ''Product validation failed: '' @ msg = ''Product validation failed: '' @ JSON_stringify env errors"
    by (simp add: msg_def)
  have n: "js_get d ''errors'' = None \<longrightarrow>
             ''Product validation failed: '' @ msg = ''Product validation failed: undefined''"
    by (simp add: msg_def)
  show "\<exists>err. snd (createShopifyProduct env body (batch_urls env body)
                    (strip_scheme (shopUrl body)) (accessToken body)) = Inl err \<and>
             spec_error_kind err = ValidationError \<and>
             reply (upload_product env body sess) = Json500 (error_message err) \<and>
             (\<forall>errors. js_get d ''errors'' = Some errors \<longrightarrow>
                error_message err = ''Product validation failed: '' @ JSON_stringify env errors) \<and>
             (js_get d ''errors'' = None \<longrightarrow>
                error_message err = ''Product validation failed: undefined'')"
    using c r e n validation_kind [of msg]
    by (intro exI [of _ "Error (''Product validation failed: '' @ msg)"]) simp
  show "session_after (upload_product env body sess) = sess"
    by (simp add: upload_product_session c)
next
  fix m
  assume "reply (upload_product env body sess) = Json500 m"
  then show "session_after (upload_product env body sess) = sess"
    by (simp add: upload_product_reply upload_product_session split: sum.splits)
qed

theorem product_validation_failure_witness:
  "reply (upload_product
      (stub_env (\<lambda>i. uploaded_as ''https://cdn.shopify.com/a.jpg'')
         (Response 422 (JObj [(''errors'',
            JObj [(''title'', JArr [JStr (''can'' @ [CHR 0x27] @ ''t be blank'')])])]))
       \<lparr>JSON_stringify := json_text\<rparr>)
      (example_body ''shop.myshopify.com'' [Value (JStr pixel_data_url)])
      \<lparr>shopifyUploads = Some []\<rparr>)
     = Json500 (''Product validation failed: {'' @ [CHR 0x22] @ ''title'' @ [CHR 0x22] @ '':['' @
          [CHR 0x22] @ ''can'' @ [CHR 0x27] @ ''t be blank'' @ [CHR 0x22] @ '']}'') \<and>
   session_after (upload_product
      (stub_env (\<lambda>i. uploaded_as ''https://cdn.shopify.com/a.jpg'')
         (Response 422 (JObj [(''errors'',
            JObj [(''title'', JArr [JStr (''can'' @ [CHR 0x27] @ ''t be blank'')])])]))
       \<lparr>JSON_stringify := json_text\<rparr>)
      (example_body ''shop.myshopify.com'' [Value (JStr pixel_data_url)])
      \<lparr>shopifyUploads = Some []\<rparr>)
     = \<lparr>shopifyUploads = Some []\<rparr>"
proof -
  let ?errors = "JObj [(''title'', JArr [JStr (''can'' @ [CHR 0x27] @ ''t be blank'')])]"
  let ?d = "JObj [(''errors'', ?errors)]"
  let ?env = "stub_env (\<lambda>i. uploaded_as ''https://cdn.shopify.com/a.jpg'') (Response 422 ?d)
                \<lparr>JSON_stringify := json_text\<rparr>"
  let ?body = "example_body ''shop.myshopify.com'' [Value (JStr pixel_data_url)]"
  let ?sess = "\<lparr>shopifyUploads = Some []\<rparr>"
  have h: "post_products ?env (''https://'' @ strip_scheme (shopUrl ?body) @ ''/admin/api/2023-10/products.json'')
        (accessToken ?body) (product_of ?env ?body (batch_urls ?env ?body)) = Response 422 ?d"
    by (simp add: stub_env_def)
  have g: "js_get ?d ''errors'' = Some ?errors"
    by simp
  have s: "JSON_stringify ?env ?errors = ''{'' @ [CHR 0x22] @ ''title'' @ [CHR 0x22] @ '':['' @
          [CHR 0x22] @ ''can'' @ [CHR 0x27] @ ''t be blank'' @ [CHR 0x22] @ '']}''"
    by (simp add: stub_env_def json_quote_def)
  note t = product_validation_failure [of ?env ?body ?d ?sess]
  from t [THEN conjunct1, THEN mp, OF h, THEN conjunct1]
  obtain err where r: "reply (upload_product ?env ?body ?sess) = Json500 (error_message err)"
    and m: "\<forall>errors. js_get ?d ''errors'' = Some errors \<longrightarrow>
              error_message err = ''Product validation failed: '' @ JSON_stringify ?env errors"
    by blast
  have "error_message err = ''Product validation failed: '' @ JSON_stringify ?env ?errors"
    using m g by blast
  then have r': "reply (upload_product ?env ?body ?sess)
     = Json500 (''Product validation failed: {'' @ [CHR 0x22] @ ''title'' @ [CHR 0x22] @ '':['' @
          [CHR 0x22] @ ''can'' @ [CHR 0x27] @ ''t be blank'' @ [CHR 0x22] @ '']}'')"
    unfolding r s by simp
  have "session_after (upload_product ?env ?body ?sess) = ?sess"
    using t [THEN conjunct2, THEN spec, THEN mp, OF r] .
  then show ?thesis using r' by simp
qed

lemma get_of_value: "\<not> (\<exists>kvs. u = JObj kvs) \<Longrightarrow> js_get u name = None"
  by (cases u) simp_all

lemma upload_without_object:
  assumes "post_uploads env i (''https://'' @ shop @ ''/admin/api/2023-10/uploads.json'') token img = Response st d"
    and "200 \<le> st \<and> st < 300"
    and "\<not> has_object d ''upload''"
  shows "snd (uploadImageToShopify env i img shop token) =
           Inl (Error (''Shopify upload failed: '' @
                  (if passes_check d ''upload'' then TypeError_message env None
                   else ''Invalid response from Shopify upload API'')))"
proof (cases "js_get d ''upload''")
  case None
  then show ?thesis
    using assms(1,2)
    by (simp add: uploadImageToShopify_def upload_try_def axios_def passes_check_def
        upload_catch_def new_Error_def response_status_def)
next
  case (Some u)
  then have "\<not> (\<exists>kvs. u = JObj kvs)"
    using assms(3) by (auto simp: has_object_def)
  then have p: "js_get u ''public_url'' = None"
    by (rule get_of_value)
  have t: "truthy d"
    using Some by (cases d) simp_all
  show ?thesis
    using assms(1,2) Some p t
    by (simp add: uploadImageToShopify_def upload_try_def axios_def passes_check_def
        upload_catch_def new_Error_def response_status_def)
qed

lemma upload_rejected:
  assumes "post_uploads env i (''https://'' @ shop @ ''/admin/api/2023-10/uploads.json'') token img = Response st d"
    and "\<not> (200 \<le> st \<and> st < 300)"
  shows "\<exists>e. snd (uploadImageToShopify env i img shop token) = Inl e"
  using assms by (auto simp: uploadImageToShopify_def upload_try_def axios_def)

lemma create_rejected:
  assumes "post_products env (''https://'' @ shop @ ''/admin/api/2023-10/products.json'') token
             (product_of env productData urls) = Response st d"
    and "\<not> (200 \<le> st \<and> st < 300)"
  shows "\<exists>e. snd (createShopifyProduct env productData urls shop token) = Inl e"
  using assms by (auto simp: createShopifyProduct_def create_try_def axios_def)

lemma create_without_check:
  assumes "post_products env (''https://'' @ shop @ ''/admin/api/2023-10/products.json'') token
             (product_of env productData urls) = Response st d"
    and "200 \<le> st \<and> st < 300"
    and "\<not> passes_check d ''product''"
  shows "snd (createShopifyProduct env productData urls shop token) =
           Inl (Error ''Shopify product creation failed: Invalid response from Shopify product creation API'')"
  using assms
  by (auto simp: createShopifyProduct_def create_try_def axios_def passes_check_def create_catch_def
      new_Error_def response_status_def split: option.splits)

lemma transport_kind_upload:
  "spec_error_kind (Error (''Shopify upload failed: '' @ m)) = TransportError"
  by (simp add: spec_error_kind_def startsWith_def)

lemma transport_kind_create:
  "spec_error_kind (Error (''Shopify product creation failed: '' @ m)) = TransportError"
  by (simp add: spec_error_kind_def startsWith_def)

text \<open>
  Claim C6, as the code has it. An asset response whose body holds no \<^verbatim>\<open>upload\<close> object
  makes the upload fail whatever the status; with a status in 200..299 the error is
  \<^verbatim>\<open>Shopify upload failed: \<close> followed by the message of what the \<^verbatim>\<open>try\<close> block threw,
  which is \<^verbatim>\<open>Invalid response from Shopify upload API\<close> when the code's own test
  rejects the body. A product response whose body holds no \<^verbatim>\<open>product\<close> or a falsy one holds
  no \<^verbatim>\<open>product\<close> object and makes the creation fail whatever the status; with a status
  in 200..299 the error is
  \<^verbatim>\<open>Shopify product creation failed: Invalid response from Shopify product creation API\<close>.
  Both errors leave through the last branch of the \<^verbatim>\<open>catch\<close> block, the one for every
  failure that is neither a 401 nor a 422: they are not of the validation kind.
\<close>

theorem malformed_success_fails:
  "(post_uploads env i (''https://'' @ shop @ ''/admin/api/2023-10/uploads.json'') token img = Response st d \<and>
      \<not> has_object d ''upload'' \<longrightarrow>
      (\<exists>e. snd (uploadImageToShopify env i img shop token) = Inl e) \<and>
      (200 \<le> st \<and> st < 300 \<longrightarrow>
         (\<exists>m. snd (uploadImageToShopify env i img shop token)
                 = Inl (Error (''Shopify upload failed: '' @ m)) \<and>
               spec_error_kind (Error (''Shopify upload failed: '' @ m)) = TransportError) \<and>
         (\<not> passes_check d ''upload'' \<longrightarrow>
            snd (uploadImageToShopify env i img shop token)
              = Inl (Error ''Shopify upload failed: Invalid response from Shopify upload API'')))) \<and>
   (post_products env (''https://'' @ shop @ ''/admin/api/2023-10/products.json'') token
        (product_of env productData urls) = Response st' d' \<and>
      \<not> passes_check d' ''product'' \<longrightarrow>
      \<not> has_object d' ''product'' \<and>
      (\<exists>e. snd (createShopifyProduct env productData urls shop token) = Inl e) \<and>
      (200 \<le> st' \<and> st' < 300 \<longrightarrow>
         snd (createShopifyProduct env productData urls shop token)
           = Inl (Error ''Shopify product creation failed: Invalid response from Shopify product creation API'') \<and>
         spec_error_kind (Error ''Shopify product creation failed: Invalid response from Shopify product creation API'')
           = TransportError))"
proof (intro conjI impI)
  assume a: "post_uploads env i (''https://'' @ shop @ ''/admin/api/2023-10/uploads.json'') token img = Response st d \<and>
      \<not> has_object d ''upload''"
  show "\<exists>e. snd (uploadImageToShopify env i img shop token) = Inl e"
  proof (cases "200 \<le> st \<and> st < 300")
    case True
    show ?thesis
      unfolding upload_without_object [OF a [THEN conjunct1] True a [THEN conjunct2]] by simp
  next
    case False
    show ?thesis
      using a [THEN conjunct1] False by (rule upload_rejected)
  qed
  show "\<exists>m. snd (uploadImageToShopify env i img shop token)
                 = Inl (Error (''Shopify upload failed: '' @ m)) \<and>
               spec_error_kind (Error (''Shopify upload failed: '' @ m)) = TransportError"
    if ok: "200 \<le> st \<and> st < 300"
    unfolding upload_without_object [OF a [THEN conjunct1] ok a [THEN conjunct2]]
    using transport_kind_upload by blast
  show "snd (uploadImageToShopify env i img shop token)
              = Inl (Error ''Shopify upload failed: Invalid response from Shopify upload API'')"
    if ok: "200 \<le> st \<and> st < 300" and no: "\<not> passes_check d ''upload''"
    unfolding upload_without_object [OF a [THEN conjunct1] ok a [THEN conjunct2]]
    using no by simp
next
  assume a: "post_products env (''https://'' @ shop @ ''/admin/api/2023-10/products.json'') token
        (product_of env productData urls) = Response st' d' \<and> \<not> passes_check d' ''product''"
  show "\<not> has_object d' ''product''"
    using a [THEN conjunct2]
    by (cases d') (auto simp: has_object_def passes_check_def split: option.splits json.splits)
  show "\<exists>e. snd (createShopifyProduct env productData urls shop token) = Inl e"
  proof (cases "200 \<le> st' \<and> st' < 300")
    case True
    show ?thesis
      unfolding create_without_check [OF a [THEN conjunct1] True a [THEN conjunct2]] by simp
  next
    case False
    show ?thesis
      using a [THEN conjunct1] False by (rule create_rejected)
  qed
  show "snd (createShopifyProduct env productData urls shop token)
           = Inl (Error ''Shopify product creation failed: Invalid response from Shopify product creation API'')"
    if ok: "200 \<le> st' \<and> st' < 300"
    by (rule create_without_check [OF a [THEN conjunct1] ok a [THEN conjunct2]])
  show "spec_error_kind (Error ''Shopify product creation failed: Invalid response from Shopify product creation API'')
           = TransportError"
    using transport_kind_create [of "''Invalid response from Shopify product creation API''"] by simp
qed

theorem malformed_success_fails_witness:
  "\<not> has_object (JObj [(''upload'', JNum 5)]) ''upload'' \<and>
   \<not> passes_check (JObj [(''product'', JNull)]) ''product'' \<and>
   snd (uploadImageToShopify
          (stub_env (\<lambda>i. Response 200 (JObj [(''upload'', JNum 5)])) (Response 201 (JObj [(''product'', JNull)]))) 0
          \<lparr>buffer = [], filename = ''product_image_1_0.jpg'', mimetype = ''image/jpeg''\<rparr>
          ''shop.myshopify.com'' ''shpat_1'')
     = Inl (Error ''Shopify upload failed: public_url.replace is not a function'') \<and>
   snd (createShopifyProduct
          (stub_env (\<lambda>i. Response 200 (JObj [(''upload'', JNum 5)])) (Response 201 (JObj [(''product'', JNull)])))
          (example_body ''shop.myshopify.com'' []) [] ''shop.myshopify.com'' ''shpat_1'')
     = Inl (Error ''Shopify product creation failed: Invalid response from Shopify product creation API'')"
proof -
  let ?env = "stub_env (\<lambda>i. Response 200 (JObj [(''upload'', JNum 5)])) (Response 201 (JObj [(''product'', JNull)]))"
  let ?img = "\<lparr>buffer = [], filename = ''product_image_1_0.jpg'', mimetype = ''image/jpeg''\<rparr>"
  let ?body = "example_body ''shop.myshopify.com'' []"
  have h1: "post_uploads ?env 0 (''https://'' @ ''shop.myshopify.com'' @ ''/admin/api/2023-10/uploads.json'')
              ''shpat_1'' ?img = Response 200 (JObj [(''upload'', JNum 5)]) \<and>
            \<not> has_object (JObj [(''upload'', JNum 5)]) ''upload''"
    by (simp add: stub_env_def has_object_def)
  have h2: "post_products ?env (''https://'' @ ''shop.myshopify.com'' @ ''/admin/api/2023-10/products.json'')
              ''shpat_1'' (product_of ?env ?body []) = Response 201 (JObj [(''product'', JNull)]) \<and>
            \<not> passes_check (JObj [(''product'', JNull)]) ''product''"
    by (simp add: stub_env_def passes_check_def)
  have ok1: "(200::nat) \<le> 200 \<and> (200::nat) < 300" by simp
  have ok2: "(200::nat) \<le> 201 \<and> (201::nat) < 300" by simp
  have u: "snd (uploadImageToShopify ?env 0 ?img ''shop.myshopify.com'' ''shpat_1'')
             = Inl (Error ''Shopify upload failed: public_url.replace is not a function'')"
    by code_simp
  note t = malformed_success_fails [of ?env 0 "''shop.myshopify.com''" "''shpat_1''" ?img 200
      "JObj [(''upload'', JNum 5)]" ?body "[]" 201 "JObj [(''product'', JNull)]"]
  from t [THEN conjunct1, THEN mp, OF h1, THEN conjunct2, THEN mp, OF ok1, THEN conjunct1]
  obtain m where k: "spec_error_kind (Error (''Shopify upload failed: '' @ m)) = TransportError"
    by blast
  have b: "snd (createShopifyProduct ?env ?body [] ''shop.myshopify.com'' ''shpat_1'')
     = Inl (Error ''Shopify product creation failed: Invalid response from Shopify product creation API'')"
    using t [THEN conjunct2, THEN mp, OF h2, THEN conjunct2, THEN conjunct2, THEN mp, OF ok2, THEN conjunct1] .
  show ?thesis using h1 h2 u b by blast
qed

text \<open>
  Claim C6, as the specification states it, fails twice. An asset endpoint that answers
  200 with the body \<^verbatim>\<open>{}\<close> makes the upload fail, but not with the validation kind of
  error. A product endpoint that answers 200 with the body \<^verbatim>\<open>{"product":"x"}\<close>, which
  holds no product object, does not make the creation fail at all: the test of line 157
  lets every truthy value pass.
\<close>

theorem malformed_success_counterexample:
  "\<not> has_object (JObj []) ''upload'' \<and>
   \<not> (\<exists>e. snd (uploadImageToShopify (stub_env (\<lambda>i. Response 200 (JObj [])) product_created) 0
               \<lparr>buffer = [], filename = ''product_image_1_0.jpg'', mimetype = ''image/jpeg''\<rparr>
               ''shop.myshopify.com'' ''shpat_1'') = Inl e \<and>
          spec_error_kind e = ValidationError) \<and>
   \<not> has_object (JObj [(''product'', JStr ''x'')]) ''product'' \<and>
   snd (createShopifyProduct
          (stub_env (\<lambda>i. Response 200 (JObj [])) (Response 200 (JObj [(''product'', JStr ''x'')])))
          (example_body ''shop.myshopify.com'' []) [] ''shop.myshopify.com'' ''shpat_1'')
     = Inr \<lparr>created = True, product = JStr ''x'',
            productUrl = ''https://shop.myshopify.com/products/undefined'',
            adminUrl = ''https://shop.myshopify.com/admin/products/undefined''\<rparr>"
proof -
  have "snd (uploadImageToShopify (stub_env (\<lambda>i. Response 200 (JObj [])) product_created) 0
               \<lparr>buffer = [], filename = ''product_image_1_0.jpg'', mimetype = ''image/jpeg''\<rparr>
               ''shop.myshopify.com'' ''shpat_1'')
        = Inl (Error (''Shopify upload failed: '' @ ''Invalid response from Shopify upload API''))"
    by code_simp
  then have a: "\<not> (\<exists>e. snd (uploadImageToShopify (stub_env (\<lambda>i. Response 200 (JObj [])) product_created) 0
               \<lparr>buffer = [], filename = ''product_image_1_0.jpg'', mimetype = ''image/jpeg''\<rparr>
               ''shop.myshopify.com'' ''shpat_1'') = Inl e \<and>
          spec_error_kind e = ValidationError)"
    using transport_kind_upload [of "''Invalid response from Shopify upload API''"] by auto
  have b: "snd (createShopifyProduct
          (stub_env (\<lambda>i. Response 200 (JObj [])) (Response 200 (JObj [(''product'', JStr ''x'')])))
          (example_body ''shop.myshopify.com'' []) [] ''shop.myshopify.com'' ''shpat_1'')
     = Inr \<lparr>created = True, product = JStr ''x'',
            productUrl = ''https://shop.myshopify.com/products/undefined'',
            adminUrl = ''https://shop.myshopify.com/admin/products/undefined''\<rparr>"
    by code_simp
  have c: "\<not> has_object (JObj []) ''upload''" "\<not> has_object (JObj [(''product'', JStr ''x'')]) ''product''"
    by (simp_all add: has_object_def)
  show ?thesis using a b c by blast
qed

subsection \<open>The scheme of the image URLs\<close>

lemma js_replace_http: "js_replace (''http://'' @ rest) ''http://'' ''https://'' = ''https://'' @ rest"
  by (simp add: startsWith_def)

lemma js_replace_https: "startsWith (js_replace (''https://'' @ rest) ''http://'' ''https://'') ''https://''"
  by (simp add: startsWith_def)

lemma js_get_truthy: "js_get v name = Some x \<Longrightarrow> truthy v"
  by (cases v) simp_all

text \<open>
  What \<^verbatim>\<open>replace('http://', 'https://')\<close> achieves: a \<^verbatim>\<open>public_url\<close> that starts with
  \<^verbatim>\<open>http://\<close> or \<^verbatim>\<open>https://\<close> is returned with the prefix \<^verbatim>\<open>https://\<close>.
\<close>

theorem upload_rewrites_http:
  assumes "post_uploads env i (''https://'' @ shop @ ''/admin/api/2023-10/uploads.json'') token img
             = Response st d"
    and "200 \<le> st \<and> st < 300"
    and "js_get d ''upload'' = Some u"
    and "js_get u ''public_url'' = Some (JStr (scheme @ rest))"
    and "scheme = ''http://'' \<or> scheme = ''https://''"
  shows "\<exists>r. snd (uploadImageToShopify env i img shop token) = Inr r \<and>
              startsWith (publicUrl r) ''https://'' \<and>
              (scheme = ''http://'' \<longrightarrow> publicUrl r = ''https://'' @ rest)"
proof -
  have "snd (uploadImageToShopify env i img shop token) =
          Inr \<lparr>success = True, uploadId = js_get u ''id'',
               publicUrl = js_replace (scheme @ rest) ''http://'' ''https://'',
               uploaded_filename = js_get u ''key''\<rparr>"
    using assms(1-4) js_get_truthy [OF assms(3)] js_get_truthy [OF assms(4)]
    by (simp add: uploadImageToShopify_def upload_try_def axios_def)
  moreover have "startsWith (js_replace (scheme @ rest) ''http://'' ''https://'') ''https://''"
    using assms(5) js_replace_http [of rest] js_replace_https [of rest]
    by (auto simp: startsWith_def)
  moreover have "scheme = ''http://'' \<longrightarrow> js_replace (scheme @ rest) ''http://'' ''https://'' = ''https://'' @ rest"
    using js_replace_http [of rest] by simp
  ultimately show ?thesis by simp
qed

theorem upload_rewrites_http_witness:
  "\<exists>r. snd (uploadImageToShopify (stub_env (\<lambda>i. uploaded_as ''http://cdn.shopify.com/a.jpg'') product_created) 0
          \<lparr>buffer = [], filename = ''product_image_1_0.jpg'', mimetype = ''image/jpeg''\<rparr>
          ''shop.myshopify.com'' ''shpat_1'') = Inr r \<and>
       publicUrl r = ''https://cdn.shopify.com/a.jpg''"
proof -
  let ?env = "stub_env (\<lambda>i. uploaded_as ''http://cdn.shopify.com/a.jpg'') product_created"
  let ?img = "\<lparr>buffer = [], filename = ''product_image_1_0.jpg'', mimetype = ''image/jpeg''\<rparr>"
  let ?u = "JObj [(''id'', JNum 1), (''public_url'', JStr ''http://cdn.shopify.com/a.jpg''), (''key'', JStr ''a.jpg'')]"
  have h1: "post_uploads ?env 0 (''https://'' @ ''shop.myshopify.com'' @ ''/admin/api/2023-10/uploads.json'')
              ''shpat_1'' ?img = Response 200 (JObj [(''upload'', ?u)])"
    by (simp add: stub_env_def uploaded_as_def)
  have h2: "(200::nat) \<le> 200 \<and> (200::nat) < 300" by simp
  have h3: "js_get (JObj [(''upload'', ?u)]) ''upload'' = Some ?u" by simp
  have h4: "js_get ?u ''public_url'' = Some (JStr (''http://'' @ ''cdn.shopify.com/a.jpg''))" by simp
  have h5: "''http://'' = ''http://'' \<or> ''http://'' = ''https://''" by simp
  from upload_rewrites_http [OF h1 h2 h3 h4 h5]
  show ?thesis by auto
qed

text \<open>
  The product request lists one image per URL of the batch, in the batch's order, each
  passed through the same replacement.
\<close>

theorem payload_image_count:
  "\<exists>p. product_payloads (sent (upload_product env body sess)) = [p] \<and>
        length (images p) = length (batch_urls env body) \<and>
        map src (images p) = map (\<lambda>url. js_replace url ''http://'' ''https://'') (batch_urls env body)"
  by (simp add: upload_product_payloads product_of_def comp_def)

text \<open>
  Claim C1, evaluated where it fails. The replacement looks for the lower-case text
  \<^verbatim>\<open>http://\<close> only: a \<^verbatim>\<open>public_url\<close> with the scheme written \<^verbatim>\<open>HTTP\<close>, or with another scheme
  such as \<^verbatim>\<open>ftp\<close>, is handed back by a successful upload as it came.
\<close>

theorem upload_keeps_other_scheme:
  "snd (uploadImageToShopify (stub_env (\<lambda>i. uploaded_as ''HTTP://cdn.shopify.com/a.jpg'') product_created) 0
          \<lparr>buffer = [], filename = ''product_image_1_0.jpg'', mimetype = ''image/jpeg''\<rparr>
          ''shop.myshopify.com'' ''shpat_1'')
     = Inr \<lparr>success = True, uploadId = Some (JNum 1), publicUrl = ''HTTP://cdn.shopify.com/a.jpg'',
            uploaded_filename = Some (JStr ''a.jpg'')\<rparr> \<and>
   snd (uploadImageToShopify (stub_env (\<lambda>i. uploaded_as ''ftp://files.example.com/a.jpg'') product_created) 0
          \<lparr>buffer = [], filename = ''product_image_1_0.jpg'', mimetype = ''image/jpeg''\<rparr>
          ''shop.myshopify.com'' ''shpat_1'')
     = Inr \<lparr>success = True, uploadId = Some (JNum 1), publicUrl = ''ftp://files.example.com/a.jpg'',
            uploaded_filename = Some (JStr ''a.jpg'')\<rparr> \<and>
   \<not> startsWith ''HTTP://cdn.shopify.com/a.jpg'' ''https://'' \<and>
   \<not> startsWith ''ftp://files.example.com/a.jpg'' ''https://''"
  by code_simp

lemma data_url_uploaded:
  assumes "startsWith s ''data:image/''"
    and "second (split_comma s) = Some base64Data"
    and "sharp_jpeg env i (Buffer_from_base64 env base64Data) = Inr jpeg"
    and "\<forall>url token img. post_uploads env i url token img = uploaded_as u"
  shows "image_url env shop token' i (Value (JStr s)) = Some (js_replace u ''http://'' ''https://'')"
  using assms
  by (simp add: image_url_def process_image_def processImageForShopify_def uploadImageToShopify_def
      upload_try_def axios_def uploaded_as_def)

text \<open>
  Claim C4, where it fails. A request with one image given as a data URL, which sharp
  re-encodes, uploaded to an asset endpoint that answers with the insecure URL
  \<^verbatim>\<open>HTTP://cdn.shopify.com/a.jpg\<close>, submits a product whose image list holds that URL
  unchanged: the replacement looks for the lower-case text \<^verbatim>\<open>http://\<close> only. This holds
  for every decoder, every result of sharp, every clock and every product endpoint.
\<close>

theorem payload_keeps_insecure_url:
  assumes "req_images body = [Value (JStr s)]"
    and "startsWith s ''data:image/''"
    and "second (split_comma s) = Some base64Data"
    and "sharp_jpeg env 0 (Buffer_from_base64 env base64Data) = Inr jpeg"
    and "\<forall>url token img. post_uploads env 0 url token img = uploaded_as ''HTTP://cdn.shopify.com/a.jpg''"
  shows "batch_urls env body = [''HTTP://cdn.shopify.com/a.jpg''] \<and>
         (\<exists>p. product_payloads (sent (upload_product env body sess)) = [p] \<and>
              map src (images p) = [''HTTP://cdn.shopify.com/a.jpg'']) \<and>
         \<not> startsWith ''HTTP://cdn.shopify.com/a.jpg'' ''https://''"
proof -
  have r: "js_replace ''HTTP://cdn.shopify.com/a.jpg'' ''http://'' ''https://'' = ''HTTP://cdn.shopify.com/a.jpg''"
    by (simp add: startsWith_def)
  have u: "image_url env (shopUrl body) (accessToken body) 0 (Value (JStr s))
             = Some ''HTTP://cdn.shopify.com/a.jpg''"
    using data_url_uploaded [OF assms(2-5)] unfolding r .
  have b: "batch_urls env body = [''HTTP://cdn.shopify.com/a.jpg'']"
    unfolding batch_urls_def upload_images_urls assms(1) using u by simp
  have p: "\<exists>p. product_payloads (sent (upload_product env body sess)) = [p] \<and>
              map src (images p) = [''HTTP://cdn.shopify.com/a.jpg'']"
    unfolding upload_product_payloads b using r by (simp add: product_of_def)
  show ?thesis using b p by (simp add: startsWith_def)
qed

theorem payload_keeps_insecure_url_witness:
  "startsWith pixel_data_url ''data:image/'' \<and>
   second (split_comma pixel_data_url)
     = Some ''iVBORw0KGgoAAAANSUhEUgAAAAEAAAABCAIAAACQd1PeAAAADElEQVR4nGP4z8AAAAMBAQDJ/pLvAAAAAElFTkSuQmCC'' \<and>
   (\<exists>p. product_payloads (sent (upload_product
          (stub_env (\<lambda>i. uploaded_as ''HTTP://cdn.shopify.com/a.jpg'') product_created
             \<lparr>Buffer_from_base64 := (\<lambda>text. [137, 80, 78, 71, 13, 10, 26, 10]),
              sharp_jpeg := (\<lambda>i b. Inr [255, 216, 255, 224])\<rparr>)
          (example_body ''shop.myshopify.com'' [Value (JStr pixel_data_url)])
          \<lparr>shopifyUploads = None\<rparr>)) = [p] \<and>
        map src (images p) = [''HTTP://cdn.shopify.com/a.jpg''])"
proof -
  let ?env = "stub_env (\<lambda>i. uploaded_as ''HTTP://cdn.shopify.com/a.jpg'') product_created
             \<lparr>Buffer_from_base64 := (\<lambda>text. [137, 80, 78, 71, 13, 10, 26, 10]),
              sharp_jpeg := (\<lambda>i b. Inr [255, 216, 255, 224])\<rparr>"
  let ?body = "example_body ''shop.myshopify.com'' [Value (JStr pixel_data_url)]"
  let ?b64 = "''iVBORw0KGgoAAAANSUhEUgAAAAEAAAABCAIAAACQd1PeAAAADElEQVR4nGP4z8AAAAMBAQDJ/pLvAAAAAElFTkSuQmCC''"
  have h1: "req_images ?body = [Value (JStr pixel_data_url)]"
    by (simp add: example_body_def)
  have h2: "startsWith pixel_data_url ''data:image/''"
    by (simp add: pixel_data_url_def startsWith_def)
  have h3: "second (split_comma pixel_data_url) = Some ?b64"
    by code_simp
  have h4: "sharp_jpeg ?env 0 (Buffer_from_base64 ?env ?b64) = Inr [255, 216, 255, 224]"
    by (simp add: stub_env_def)
  have h5: "\<forall>url token img. post_uploads ?env 0 url token img = uploaded_as ''HTTP://cdn.shopify.com/a.jpg''"
    by (simp add: stub_env_def)
  from payload_keeps_insecure_url [OF h1 h2 h3 h4 h5, of "\<lparr>shopifyUploads = None\<rparr>"]
  show ?thesis using h2 h3 by blast
qed

end
